theory Spec2Isabelle
  imports Complex_Main "HOL-Library.Word"
begin

unbundle bit_operations_syntax

section \<open>Audio data\<close>

text \<open>
  The agent of \<^verbatim>\<open>backend/ai_agent.js\<close> relays PCM audio between a LiveKit room and the
  OpenAI Realtime API. An \<^verbatim>\<open>Int16Array\<close> is a list of 16-bit words, a \<^verbatim>\<open>Buffer\<close> a list
  of bytes, and an \<^verbatim>\<open>AudioFrame\<close> a record of the four constructor arguments
  \<^verbatim>\<open>new AudioFrame(data, sampleRate, numChannels, samplesPerChannel)\<close>.
\<close>

type_synonym int16 = "16 word"
type_synonym byte = "8 word"

record audio_frame =
  data :: "int16 list"
  sampleRate :: nat
  numChannels :: nat
  samplesPerChannel :: nat

text \<open>The invariant of a frame: \<^verbatim>\<open>data.length == samplesPerChannel * numChannels\<close>.\<close>

definition valid_frame :: "audio_frame \<Rightarrow> bool" where
  "valid_frame f \<longleftrightarrow> 1 \<le> numChannels f \<and> length (data f) = samplesPerChannel f * numChannels f"

section \<open>AudioConverter\<close>

subsection \<open>resample48to24\<close>

text \<open>
  \<^verbatim>\<open>
  static resample48to24(inputBuffer) {
    const outputLength = Math.floor(inputBuffer.length / 2);
    const output = new Int16Array(outputLength);
    for (let i = 0; i < outputLength; i++) {
      output[i] = inputBuffer[i * 2];
    }
    return output;
  }
  \<close>
  The loop is the recursion \<open>resample_loop\<close> on the counter \<open>i\<close>. A read beyond the end
  of a typed array is \<^verbatim>\<open>undefined\<close>, which an \<^verbatim>\<open>Int16Array\<close> stores as 0; a write beyond the
  end of \<^verbatim>\<open>output\<close> is ignored, which is what \<open>list_update\<close> does.
\<close>

definition typed_get :: "int16 list \<Rightarrow> nat \<Rightarrow> int16" where
  "typed_get xs i = (if i < length xs then xs ! i else 0)"

function resample_loop :: "int16 list \<Rightarrow> nat \<Rightarrow> nat \<Rightarrow> int16 list \<Rightarrow> int16 list" where
  "resample_loop inputBuffer outputLength i output =
     (if i < outputLength
      then resample_loop inputBuffer outputLength (i + 1) (output[i := typed_get inputBuffer (i * 2)])
      else output)"
  by pat_completeness auto
termination
  by (relation "measure (\<lambda>(inputBuffer, outputLength, i, output). outputLength - i)") auto

declare resample_loop.simps [simp del]

definition resample48to24 :: "int16 list \<Rightarrow> int16 list" where
  "resample48to24 inputBuffer =
     (let outputLength = length inputBuffer div 2;
          output = replicate outputLength 0
      in resample_loop inputBuffer outputLength 0 output)"

subsection \<open>float32ToInt16\<close>

text \<open>
  \<^verbatim>\<open>
  static float32ToInt16(float32Array) {
    const int16Array = new Int16Array(float32Array.length);
    for (let i = 0; i < float32Array.length; i++) {
      const s = Math.max(-1, Math.min(1, float32Array[i]));
      int16Array[i] = s < 0 ? s * 0x8000 : s * 0x7FFF;
    }
    return int16Array;
  }
  \<close>
  An element of a \<^verbatim>\<open>Float32Array\<close> is a finite binary fraction, an infinity or NaN. The
  finite values are modelled as rationals: a float32 has at most 24 significant bits, so
  its products with \<^verbatim>\<open>0x8000\<close> and \<^verbatim>\<open>0x7FFF\<close> have at most 39 and are exact in the
  double arithmetic of JavaScript. \<open>math_min\<close>, \<open>math_max\<close>, \<open>js_less_zero\<close> and \<open>js_times\<close>
  follow ECMAScript on the special values (a NaN operand gives NaN, a comparison with NaN
  is false). Storing a number into an \<^verbatim>\<open>Int16Array\<close> is \<open>to_int16\<close>: NaN and the
  infinities become 0, a finite value is truncated towards zero and wrapped modulo
  \<open>2 ^ 16\<close>.
\<close>

datatype jsnum = Fin rat | PosInf | NegInf | NaN

fun math_min :: "jsnum \<Rightarrow> jsnum \<Rightarrow> jsnum" where
  "math_min NaN _ = NaN"
| "math_min _ NaN = NaN"
| "math_min NegInf _ = NegInf"
| "math_min _ NegInf = NegInf"
| "math_min PosInf y = y"
| "math_min x PosInf = x"
| "math_min (Fin a) (Fin b) = Fin (min a b)"

fun math_max :: "jsnum \<Rightarrow> jsnum \<Rightarrow> jsnum" where
  "math_max NaN _ = NaN"
| "math_max _ NaN = NaN"
| "math_max PosInf _ = PosInf"
| "math_max _ PosInf = PosInf"
| "math_max NegInf y = y"
| "math_max x NegInf = x"
| "math_max (Fin a) (Fin b) = Fin (max a b)"

fun js_less_zero :: "jsnum \<Rightarrow> bool" where
  "js_less_zero (Fin a) = (a < 0)"
| "js_less_zero NegInf = True"
| "js_less_zero PosInf = False"
| "js_less_zero NaN = False"

text \<open>Multiplication by a positive finite constant \<open>k\<close>.\<close>

fun js_times :: "jsnum \<Rightarrow> rat \<Rightarrow> jsnum" where
  "js_times (Fin a) k = Fin (a * k)"
| "js_times PosInf k = PosInf"
| "js_times NegInf k = NegInf"
| "js_times NaN k = NaN"

definition trunc :: "rat \<Rightarrow> int" where
  "trunc r = (if 0 \<le> r then \<lfloor>r\<rfloor> else \<lceil>r\<rceil>)"

fun to_int16 :: "jsnum \<Rightarrow> int16" where
  "to_int16 (Fin r) = word_of_int (trunc r)"
| "to_int16 _ = 0"

definition clamp_sample :: "jsnum \<Rightarrow> jsnum" where
  "clamp_sample x = math_max (Fin (- 1)) (math_min (Fin 1) x)"

definition scale_sample :: "jsnum \<Rightarrow> jsnum" where
  "scale_sample x =
     (let s = clamp_sample x
      in if js_less_zero s then js_times s 32768 else js_times s 32767)"

function float32_loop :: "jsnum list \<Rightarrow> nat \<Rightarrow> int16 list \<Rightarrow> int16 list" where
  "float32_loop float32Array i int16Array =
     (if i < length float32Array
      then float32_loop float32Array (i + 1)
             (int16Array[i := to_int16 (scale_sample (float32Array ! i))])
      else int16Array)"
  by pat_completeness auto
termination
  by (relation "measure (\<lambda>(float32Array, i, int16Array). length float32Array - i)") auto

declare float32_loop.simps [simp del]

definition float32ToInt16 :: "jsnum list \<Rightarrow> int16 list" where
  "float32ToInt16 float32Array =
     float32_loop float32Array 0 (replicate (length float32Array) 0)"

subsection \<open>Buffers and base64\<close>

text \<open>
  \<^verbatim>\<open>Buffer.from(resampled.buffer)\<close> exposes the bytes of an \<^verbatim>\<open>Int16Array\<close>, two per sample,
  low byte first (typed arrays have the byte order of the platform, little-endian on
  every platform Node.js runs on). \<^verbatim>\<open>new Int16Array(buffer, byteOffset, n)\<close> reads them
  back: \<open>n\<close> samples from consecutive byte pairs.
\<close>

definition int16_bytes :: "int16 \<Rightarrow> byte list" where
  "int16_bytes w = [ucast w, ucast (drop_bit 8 w)]"

definition Buffer_from_int16 :: "int16 list \<Rightarrow> byte list" where
  "Buffer_from_int16 xs = concat (map int16_bytes xs)"

fun int16_pairs :: "byte list \<Rightarrow> int16 list" where
  "int16_pairs (lo # hi # rest) = word_cat hi lo # int16_pairs rest"
| "int16_pairs _ = []"

definition Int16Array_view :: "byte list \<Rightarrow> nat \<Rightarrow> int16 list" where
  "Int16Array_view bytes n = take n (int16_pairs bytes)"

text \<open>
  \<^verbatim>\<open>buffer.toString('base64')\<close> and \<^verbatim>\<open>Buffer.from(text, 'base64')\<close> are functions of Node.js.
  The encoder is that of RFC 4648 with padding. The decoder is the lenient one of Node.js:
  it accepts the standard and the URL-safe alphabet, skips every other character, stops
  at the first \<^verbatim>\<open>=\<close>, and drops the bits of an incomplete last group.
\<close>

definition b64_char :: "nat \<Rightarrow> char" where
  "b64_char i =
     (if i < 26 then char_of (65 + i)
      else if i < 52 then char_of (71 + i)
      else if i < 62 then char_of (i - 4)
      else if i = 62 then CHR ''+'' else CHR ''/'')"

definition b64_value :: "char \<Rightarrow> nat option" where
  "b64_value c =
     (let n = (of_char c :: nat)
      in if 65 \<le> n \<and> n \<le> 90 then Some (n - 65)
         else if 97 \<le> n \<and> n \<le> 122 then Some (n - 71)
         else if 48 \<le> n \<and> n \<le> 57 then Some (n + 4)
         else if n = 43 \<or> n = 45 then Some 62
         else if n = 47 \<or> n = 95 then Some 63
         else None)"

fun toString_base64 :: "byte list \<Rightarrow> string" where
  "toString_base64 [] = []"
| "toString_base64 [a] =
     (let n = unat a * 65536
      in [b64_char (n div 262144), b64_char (n div 4096 mod 64), CHR ''='', CHR ''=''])"
| "toString_base64 [a, b] =
     (let n = unat a * 65536 + unat b * 256
      in [b64_char (n div 262144), b64_char (n div 4096 mod 64), b64_char (n div 64 mod 64),
          CHR ''=''])"
| "toString_base64 (a # b # c # rest) =
     (let n = unat a * 65536 + unat b * 256 + unat c
      in [b64_char (n div 262144), b64_char (n div 4096 mod 64), b64_char (n div 64 mod 64),
          b64_char (n mod 64)]) @ toString_base64 rest"

fun b64_sextets :: "string \<Rightarrow> nat list" where
  "b64_sextets [] = []"
| "b64_sextets (c # cs) =
     (if c = CHR ''='' then []
      else case b64_value c of None \<Rightarrow> b64_sextets cs | Some v \<Rightarrow> v # b64_sextets cs)"

fun b64_bytes :: "nat list \<Rightarrow> byte list" where
  "b64_bytes (s0 # s1 # s2 # s3 # rest) =
     (let n = ((s0 * 64 + s1) * 64 + s2) * 64 + s3
      in [of_nat (n div 65536), of_nat (n div 256 mod 256), of_nat (n mod 256)]) @ b64_bytes rest"
| "b64_bytes [s0, s1, s2] =
     (let n = ((s0 * 64 + s1) * 64 + s2) * 64
      in [of_nat (n div 65536), of_nat (n div 256 mod 256)])"
| "b64_bytes [s0, s1] =
     (let n = (s0 * 64 + s1) * 4096
      in [of_nat (n div 65536)])"
| "b64_bytes _ = []"

definition Buffer_from_base64 :: "string \<Rightarrow> byte list" where
  "Buffer_from_base64 text = b64_bytes (b64_sextets text)"

subsection \<open>convertForOpenAI and the two directions of the wire encoding\<close>

text \<open>
  \<^verbatim>\<open>
  static convertForOpenAI(audioFrame) {
    const resampled = this.resample48to24(audioFrame.data);
    const buffer = Buffer.from(resampled.buffer);
    return buffer.toString('base64');
  }
  \<close>
  \<open>encodeForWire\<close> is the last two lines, the wire encoding of an array of samples.
  Neither function reads the sample rate or the channel count of the frame.
\<close>

definition encodeForWire :: "int16 list \<Rightarrow> string" where
  "encodeForWire samples = toString_base64 (Buffer_from_int16 samples)"

definition convertForOpenAI :: "audio_frame \<Rightarrow> string" where
  "convertForOpenAI audioFrame =
     (let resampled = resample48to24 (data audioFrame)
      in encodeForWire resampled)"

text \<open>
  The way back is split over two places. \<^verbatim>\<open>handleMessage\<close> decodes the base64 text,
  \<^verbatim>\<open>playAudioInRoom\<close> turns the buffer into a frame:
  \<^verbatim>\<open>
      const int16Array = new Int16Array(
        pcm16Buffer.buffer, pcm16Buffer.byteOffset, pcm16Buffer.length / 2);
      const SAMPLE_RATE = 24000;
      const NUM_CHANNELS = 1;
      const numSamples = int16Array.length;
      const audioFrame = new AudioFrame(int16Array, SAMPLE_RATE, NUM_CHANNELS, numSamples);
  \<close>
  The length argument \<^verbatim>\<open>pcm16Buffer.length / 2\<close> is not an integer when the buffer has an
  odd number of bytes; the constructor converts it with ToIndex, which truncates, so the
  view has \<open>length div 2\<close> samples and nothing is thrown. (The byte offset of a buffer made
  by \<^verbatim>\<open>Buffer.from\<close> is a multiple of 8, so the alignment check of the constructor passes.)
\<close>

definition SAMPLE_RATE :: nat where
  "SAMPLE_RATE = 24000"

definition NUM_CHANNELS :: nat where
  "NUM_CHANNELS = 1"

definition frame_of_buffer :: "byte list \<Rightarrow> audio_frame" where
  "frame_of_buffer pcm16Buffer =
     (let int16Array = Int16Array_view pcm16Buffer (length pcm16Buffer div 2);
          numSamples = length int16Array
      in \<lparr>data = int16Array, sampleRate = SAMPLE_RATE, numChannels = NUM_CHANNELS,
          samplesPerChannel = numSamples\<rparr>)"

definition decodeFromWire :: "string \<Rightarrow> audio_frame" where
  "decodeFromWire payload = frame_of_buffer (Buffer_from_base64 payload)"

section \<open>OpenAIRealtimeSession\<close>

text \<open>
  The session object holds the socket \<^verbatim>\<open>ws\<close> (\<^verbatim>\<open>null\<close>, or a WebSocket whose \<^verbatim>\<open>readyState\<close>
  is all the code reads of it), the flag \<^verbatim>\<open>connected\<close>, the session id and three counters.
  Two lists make the effects visible: \<open>transmitted\<close> records the events handed to
  \<^verbatim>\<open>ws.send\<close>, oldest first, and \<open>session_console\<close> the lines of \<^verbatim>\<open>console.warn\<close> and
  \<^verbatim>\<open>console.error\<close> (the informational \<^verbatim>\<open>console.log\<close> lines are left out). No function
  of the session throws, so each is a total function on the record.
\<close>

datatype ready_state = CONNECTING | OPEN | CLOSING | CLOSED

datatype wire_event = session_update | input_audio_buffer_append string

record message =
  mtype :: string
  session_id :: string
  transcript :: string
  delta :: string

record session =
  ws :: "ready_state option"
  connected :: bool
  sessionId :: "string option"
  audioChunksSent :: nat
  textResponsesReceived :: nat
  audioChunksReceived :: nat
  transmitted :: "wire_event list"
  session_console :: "string list"

definition new_session :: session where
  "new_session =
     \<lparr>ws = None, connected = False, sessionId = None, audioChunksSent = 0,
      textResponsesReceived = 0, audioChunksReceived = 0, transmitted = [],
      session_console = []\<rparr>"

text \<open>
  \<^verbatim>\<open>
  send(event) {
    if (this.ws && this.ws.readyState === WebSocket.OPEN) {
      this.ws.send(JSON.stringify(event));
    }
  }
  \<close>
\<close>

definition send :: "wire_event \<Rightarrow> session \<Rightarrow> session" where
  "send event s =
     (if ws s = Some OPEN then s\<lparr>transmitted := transmitted s @ [event]\<rparr> else s)"

text \<open>
  \<^verbatim>\<open>
  sendAudio(base64Audio) {
    if (!this.connected) {
      console.warn('[OPENAI] Cannot send audio: not connected');
      return;
    }
    const event = { type: 'input_audio_buffer.append', audio: base64Audio };
    this.send(event);
    this.audioChunksSent++;
    ...
  }
  \<close>
\<close>

definition sendAudio :: "string \<Rightarrow> session \<Rightarrow> session" where
  "sendAudio base64Audio s =
     (if \<not> connected s
      then s\<lparr>session_console := session_console s @ [''[OPENAI] Cannot send audio: not connected'']\<rparr>
      else
        let event = input_audio_buffer_append base64Audio;
            s1 = send event s
        in s1\<lparr>audioChunksSent := audioChunksSent s1 + 1\<rparr>)"

definition initializeSession :: "session \<Rightarrow> session" where
  "initializeSession s = send session_update s"

text \<open>
  \<^verbatim>\<open>connect\<close> creates the socket and registers four handlers. The socket library moves
  \<^verbatim>\<open>readyState\<close>: to \<^verbatim>\<open>OPEN\<close> before it emits \<^verbatim>\<open>open\<close>, to \<^verbatim>\<open>CLOSING\<close> when a closing
  handshake starts, to \<^verbatim>\<open>CLOSED\<close> before it emits \<^verbatim>\<open>close\<close>. The timer of ten seconds
  that \<^verbatim>\<open>connect\<close> starts only rejects the promise it returned, and changes no field.
\<close>

definition connect :: "session \<Rightarrow> session" where
  "connect s = s\<lparr>ws := Some CONNECTING\<rparr>"

definition set_readyState :: "ready_state \<Rightarrow> session \<Rightarrow> session" where
  "set_readyState r s = (case ws s of None \<Rightarrow> s | Some _ \<Rightarrow> s\<lparr>ws := Some r\<rparr>)"

definition on_open :: "session \<Rightarrow> session" where
  "on_open s = initializeSession (s\<lparr>connected := True\<rparr>)"

definition on_error :: "session \<Rightarrow> session" where
  "on_error s =
     s\<lparr>connected := False,
       session_console := session_console s @ [''[OPENAI] WebSocket error'']\<rparr>"

definition on_close :: "session \<Rightarrow> session" where
  "on_close s = s\<lparr>connected := False\<rparr>"

definition disconnect :: "session \<Rightarrow> session" where
  "disconnect s = (case ws s of None \<Rightarrow> s | Some _ \<Rightarrow> s\<lparr>ws := None, connected := False\<rparr>)"

section \<open>The playback sink\<close>

text \<open>
  Modelled from the spec: the playback sink of the local transport, which the agent
  creates with \<^verbatim>\<open>new AudioSource(24000, 1)\<close> and uses through \<^verbatim>\<open>queuedDuration\<close>,
  \<^verbatim>\<open>waitForPlayout()\<close> and \<^verbatim>\<open>captureFrame(frame)\<close>. The class belongs to the LiveKit SDK.
  Following the spec's PlaybackQueue, the queued duration is the sum of
  \<open>sampleCount / sampleRate * 1000\<close> over the frames handed over and not yet played;
  \<open>captured\<close> lists the frames in the order the transport received them; the transport
  may reject a frame whose format is not the one the sink was created with; playing out
  shortens the queue, and \<^verbatim>\<open>waitForPlayout()\<close> resolves when the queue has been played.
\<close>

record audio_source =
  source_rate :: nat
  source_channels :: nat
  queuedDuration :: rat
  captured :: "audio_frame list"

definition new_AudioSource :: "nat \<Rightarrow> nat \<Rightarrow> audio_source" where
  "new_AudioSource rate channels =
     \<lparr>source_rate = rate, source_channels = channels, queuedDuration = 0, captured = []\<rparr>"

text \<open>
  The duration of a frame in milliseconds. Every frame that reaches the sink is built by
  \<open>frame_of_buffer\<close>, at 24000 Hz, so the division is never by zero.
\<close>

definition frame_duration_ms :: "audio_frame \<Rightarrow> rat" where
  "frame_duration_ms f = of_nat (samplesPerChannel f) / of_nat (sampleRate f) * 1000"

definition captureFrame :: "audio_frame \<Rightarrow> audio_source \<Rightarrow> string + audio_source" where
  "captureFrame f src =
     (if sampleRate f = source_rate src \<and> numChannels f = source_channels src
      then Inr (src\<lparr>queuedDuration := queuedDuration src + frame_duration_ms f,
                    captured := captured src @ [f]\<rparr>)
      else Inl ''sample_rate and num_channels do not match'')"

definition played :: "rat \<Rightarrow> audio_source \<Rightarrow> audio_source" where
  "played d src = src\<lparr>queuedDuration := max 0 (queuedDuration src - d)\<rparr>"

definition played_out :: "audio_source \<Rightarrow> audio_source" where
  "played_out src = src\<lparr>queuedDuration := 0\<rparr>"

section \<open>AIAgent\<close>

text \<open>
  Of the agent, the model keeps the session, the sink (\<^verbatim>\<open>null\<close> until
  \<^verbatim>\<open>setupAudioPublishing\<close> has run) and the counter of published frames; the room and the
  table of subscribed tracks only feed the status log. \<open>awaiting_playout\<close> holds the
  calls of \<^verbatim>\<open>playAudioInRoom\<close> that are suspended at
  \<^verbatim>\<open>await this.audioSource.waitForPlayout()\<close>, each by its argument, in the order they
  suspended. \<open>awaiting_capture\<close> holds the calls that are suspended at
  \<^verbatim>\<open>await this.audioSource.captureFrame(audioFrame)\<close>, oldest first, each by the outcome
  its promise will have: \<open>None\<close> when the transport took the frame, the message of the
  error when it rejected it. \<open>agent_console\<close> holds the lines of \<^verbatim>\<open>console.warn\<close> and
  \<^verbatim>\<open>console.error\<close>.
\<close>

record agent =
  openai :: session
  audioSource :: "audio_source option"
  audioFramesPublished :: nat
  awaiting_playout :: "byte list list"
  awaiting_capture :: "string option list"
  agent_console :: "string list"

definition new_agent :: agent where
  "new_agent =
     \<lparr>openai = new_session, audioSource = None, audioFramesPublished = 0,
      awaiting_playout = [], awaiting_capture = [], agent_console = []\<rparr>"

definition setupAudioPublishing :: "agent \<Rightarrow> agent" where
  "setupAudioPublishing a = a\<lparr>audioSource := Some (new_AudioSource 24000 1)\<rparr>"

text \<open>
  \<^verbatim>\<open>
  async playAudioInRoom(pcm16Buffer) {
    if (!this.audioSource) {
      console.warn('[AI-AGENT] AudioSource not ready, skipping audio frame');
      return;
    }
    try {
      const MAX_QUEUE_DURATION_MS = 1000;
      if (this.audioSource.queuedDuration > MAX_QUEUE_DURATION_MS) {
        await this.audioSource.waitForPlayout();
      }
      ... build audioFrame ...
      await this.audioSource.captureFrame(audioFrame);
      this.audioFramesPublished++;
    } catch (error) {
      console.error('[AI-AGENT] Error publishing audio frame:', error.message);
    }
  }
  \<close>
  The function is asynchronous and its caller does not await it. It runs up to its first
  \<^verbatim>\<open>await\<close> at once: \<open>playAudioInRoom\<close> is that part, which either suspends the call at
  \<^verbatim>\<open>waitForPlayout()\<close> or goes on to \<open>publish_frame\<close>, the body from the construction of
  the frame to the call of \<^verbatim>\<open>captureFrame\<close>. That call hands the frame to the transport,
  and the function suspends again at its \<^verbatim>\<open>await\<close>. What follows runs when the promise of
  \<^verbatim>\<open>captureFrame\<close> settles, in a later turn of the event loop: \<open>capture_settled\<close> counts
  the frame, or writes the error of a rejected frame to the console.
\<close>

definition MAX_QUEUE_DURATION_MS :: rat where
  "MAX_QUEUE_DURATION_MS = 1000"

definition publish_frame :: "byte list \<Rightarrow> agent \<Rightarrow> agent" where
  "publish_frame pcm16Buffer a =
     (case audioSource a of
        None \<Rightarrow>
          a\<lparr>agent_console := agent_console a @ [''[AI-AGENT] Error publishing audio frame'']\<rparr>
      | Some src \<Rightarrow>
          (case captureFrame (frame_of_buffer pcm16Buffer) src of
             Inl err \<Rightarrow> a\<lparr>awaiting_capture := awaiting_capture a @ [Some err]\<rparr>
           | Inr src' \<Rightarrow>
               a\<lparr>audioSource := Some src',
                 awaiting_capture := awaiting_capture a @ [None]\<rparr>))"

definition capture_settled :: "agent \<Rightarrow> agent" where
  "capture_settled a =
     (case awaiting_capture a of
        [] \<Rightarrow> a
      | None # rest \<Rightarrow>
          a\<lparr>awaiting_capture := rest, audioFramesPublished := audioFramesPublished a + 1\<rparr>
      | Some err # rest \<Rightarrow>
          a\<lparr>awaiting_capture := rest,
            agent_console := agent_console a @ [''[AI-AGENT] Error publishing audio frame'']\<rparr>)"

definition playAudioInRoom :: "byte list \<Rightarrow> agent \<Rightarrow> agent" where
  "playAudioInRoom pcm16Buffer a =
     (case audioSource a of
        None \<Rightarrow>
          a\<lparr>agent_console := agent_console a @
              [''[AI-AGENT] AudioSource not ready, skipping audio frame'']\<rparr>
      | Some src \<Rightarrow>
          if queuedDuration src > MAX_QUEUE_DURATION_MS
          then a\<lparr>awaiting_playout := awaiting_playout a @ [pcm16Buffer]\<rparr>
          else publish_frame pcm16Buffer a)"

text \<open>
  When \<^verbatim>\<open>waitForPlayout()\<close> resolves, the suspended calls continue in the order in which
  they suspended.
\<close>

definition playout_resolved :: "agent \<Rightarrow> agent" where
  "playout_resolved a =
     fold publish_frame (awaiting_playout a)
       (a\<lparr>awaiting_playout := [], audioSource := map_option played_out (audioSource a)\<rparr>)"

text \<open>
  \<^verbatim>\<open>handleMessage\<close> is a switch on \<^verbatim>\<open>message.type\<close>. It belongs to the session, but its
  \<^verbatim>\<open>response.audio.delta\<close> case reaches into the agent, so the model runs it on the agent:
  \<^verbatim>\<open>
      case 'response.audio.delta':
        this.audioChunksReceived++;
        const pcm16Buffer = Buffer.from(message.delta, 'base64');
        if (this.aiAgent && this.aiAgent.audioSource) {
          this.aiAgent.playAudioInRoom(pcm16Buffer);
        }
        break;
  \<close>
\<close>

definition handleMessage :: "message \<Rightarrow> agent \<Rightarrow> agent" where
  "handleMessage m a =
     (let s = openai a; type = mtype m
      in if type = ''session.created'' then a\<lparr>openai := s\<lparr>sessionId := Some (session_id m)\<rparr>\<rparr>
         else if type = ''session.updated'' then a
         else if type = ''input_audio_buffer.speech_started'' then a
         else if type = ''input_audio_buffer.speech_stopped'' then a
         else if type = ''input_audio_buffer.committed'' then a
         else if type = ''conversation.item.input_audio_transcription.completed''
           then a\<lparr>openai := s\<lparr>textResponsesReceived := textResponsesReceived s + 1\<rparr>\<rparr>
         else if type = ''response.audio_transcript.delta'' then a
         else if type = ''response.audio_transcript.done'' then a
         else if type = ''response.audio.done'' then a
         else if type = ''response.audio.delta'' then
           (let a1 = a\<lparr>openai := s\<lparr>audioChunksReceived := audioChunksReceived s + 1\<rparr>\<rparr>;
                pcm16Buffer = Buffer_from_base64 (delta m)
            in if audioSource a1 \<noteq> None then playAudioInRoom pcm16Buffer a1 else a1)
         else if type = ''response.done'' then a
         else if type = ''error''
           then a\<lparr>openai := s\<lparr>session_console := session_console s @ [''[OPENAI] Error'']\<rparr>\<rparr>
         else a)"

text \<open>
  The body of the capture loop of \<^verbatim>\<open>handleAudioTrack\<close>, for one frame of the track:
  \<^verbatim>\<open>
          if (this.openai.connected) {
            try {
              const base64Audio = AudioConverter.convertForOpenAI(frame);
              this.openai.sendAudio(base64Audio);
            } catch (conversionError) { console.error(...); }
          }
  \<close>
  Neither call throws on a frame, so the handler of the \<^verbatim>\<open>try\<close> has no case in the model.
\<close>

definition forward_frame :: "audio_frame \<Rightarrow> agent \<Rightarrow> agent" where
  "forward_frame frame a =
     (if connected (openai a)
      then let base64Audio = convertForOpenAI frame
           in a\<lparr>openai := sendAudio base64Audio (openai a)\<rparr>
      else a)"

section \<open>The event loop\<close>

text \<open>
  Node.js runs one handler at a time. An event is what starts a handler or resumes a
  suspended call: a call of the agent's own API, a socket event, a frame of the subscribed
  track, the transport playing audio, the promise of \<^verbatim>\<open>waitForPlayout\<close> resolving, or the
  promise of the oldest pending \<^verbatim>\<open>captureFrame\<close> settling.
\<close>

datatype event =
    Connect
  | WsOpen
  | WsClosing
  | WsError
  | WsClose
  | WsMessage message
  | TrackFrame audio_frame
  | SetupAudioPublishing
  | Played rat
  | PlayoutResolved
  | CaptureSettled
  | Disconnect

fun step :: "event \<Rightarrow> agent \<Rightarrow> agent" where
  "step Connect a = a\<lparr>openai := connect (openai a)\<rparr>"
| "step WsOpen a = a\<lparr>openai := on_open (set_readyState OPEN (openai a))\<rparr>"
| "step WsClosing a = a\<lparr>openai := set_readyState CLOSING (openai a)\<rparr>"
| "step WsError a = a\<lparr>openai := on_error (openai a)\<rparr>"
| "step WsClose a = a\<lparr>openai := on_close (set_readyState CLOSED (openai a))\<rparr>"
| "step (WsMessage m) a = handleMessage m a"
| "step (TrackFrame frame) a = forward_frame frame a"
| "step SetupAudioPublishing a = setupAudioPublishing a"
| "step (Played d) a = a\<lparr>audioSource := map_option (played d) (audioSource a)\<rparr>"
| "step PlayoutResolved a = playout_resolved a"
| "step CaptureSettled a = capture_settled a"
| "step Disconnect a = a\<lparr>openai := disconnect (openai a)\<rparr>"

definition run :: "event list \<Rightarrow> agent \<Rightarrow> agent" where
  "run events a = fold step events a"

definition audio_delta :: "string \<Rightarrow> message" where
  "audio_delta payload =
     \<lparr>mtype = ''response.audio.delta'', session_id = [], transcript = [], delta = payload\<rparr>"

definition session_created :: "string \<Rightarrow> message" where
  "session_created sid =
     \<lparr>mtype = ''session.created'', session_id = sid, transcript = [], delta = []\<rparr>"

section \<open>The protocol states of the specification\<close>

text \<open>
  The specification describes the session by a state machine: Idle, then Connecting on
  \<^verbatim>\<open>connect()\<close>, AwaitingConfig on the \<^verbatim>\<open>session.created\<close> event, Configured on
  \<^verbatim>\<open>session.updated\<close>, Active on the first \<^verbatim>\<open>sendAudio\<close>; Failed on a socket error or close
  from any state but Closed; Closed on \<^verbatim>\<open>close()\<close> from Configured or Active. The code
  keeps no such state. \<open>protocol_state\<close> follows the words of the specification and
  gives the state that the specification assigns after a sequence of events.
\<close>

datatype proto_state = Idle | Connecting | AwaitingConfig | Configured | Active | Closed | Failed

fun protocol_step :: "proto_state \<Rightarrow> event \<Rightarrow> proto_state" where
  "protocol_step Closed _ = Closed"
| "protocol_step _ WsError = Failed"
| "protocol_step _ WsClose = Failed"
| "protocol_step Idle Connect = Connecting"
| "protocol_step Connecting (WsMessage m) =
     (if mtype m = ''session.created'' then AwaitingConfig else Connecting)"
| "protocol_step AwaitingConfig (WsMessage m) =
     (if mtype m = ''session.updated'' then Configured else AwaitingConfig)"
| "protocol_step Configured (TrackFrame f) = Active"
| "protocol_step Configured Disconnect = Closed"
| "protocol_step Active Disconnect = Closed"
| "protocol_step st _ = st"

definition protocol_state :: "event list \<Rightarrow> proto_state" where
  "protocol_state events = foldl protocol_step Idle events"

text \<open>The audio events among the transmitted ones.\<close>

fun is_append :: "wire_event \<Rightarrow> bool" where
  "is_append (input_audio_buffer_append b) = True"
| "is_append session_update = False"

text \<open>An array of \<open>n\<close> samples of silence, for the examples.\<close>

definition silence :: "nat \<Rightarrow> int16 list" where
  "silence n = replicate n 0"

section \<open>Properties of the converter\<close>

subsection \<open>The loops\<close>

lemma resample_loop_eq:
  "i \<le> n \<Longrightarrow> length out = n \<Longrightarrow>
   resample_loop inp n i out = take i out @ map (\<lambda>j. typed_get inp (j * 2)) [i..<n]"
proof (induction inp n i out rule: resample_loop.induct)
  case (1 inp n i out)
  show ?case
  proof (cases "i < n")
    case True
    have "resample_loop inp n i out = resample_loop inp n (i + 1) (out[i := typed_get inp (i * 2)])"
      using True by (subst resample_loop.simps) simp
    also have "\<dots> = take (i + 1) (out[i := typed_get inp (i * 2)]) @ map (\<lambda>j. typed_get inp (j * 2)) [i + 1..<n]"
      using True "1.prems" by (intro "1.IH") simp_all
    also have "take (i + 1) (out[i := typed_get inp (i * 2)]) = take i out @ [typed_get inp (i * 2)]"
      using True "1.prems" by (simp add: take_Suc_conv_app_nth)
    finally show ?thesis using True by (simp add: upt_conv_Cons)
  next
    case False
    with "1.prems" show ?thesis by (subst resample_loop.simps) simp
  qed
qed

lemma resample48to24_map:
  "resample48to24 xs = map (\<lambda>i. xs ! (i * 2)) [0..<length xs div 2]"
proof -
  have "resample48to24 xs = map (\<lambda>j. typed_get xs (j * 2)) [0..<length xs div 2]"
    by (simp add: resample48to24_def resample_loop_eq)
  also have "\<dots> = map (\<lambda>i. xs ! (i * 2)) [0..<length xs div 2]"
    by (rule map_cong) (auto simp: typed_get_def)
  finally show ?thesis .
qed

lemma float32_loop_eq:
  "i \<le> length xs \<Longrightarrow> length out = length xs \<Longrightarrow>
   float32_loop xs i out = take i out @ map (\<lambda>x. to_int16 (scale_sample x)) (drop i xs)"
proof (induction xs i out rule: float32_loop.induct)
  case (1 xs i out)
  show ?case
  proof (cases "i < length xs")
    case True
    have "float32_loop xs i out = float32_loop xs (i + 1) (out[i := to_int16 (scale_sample (xs ! i))])"
      using True by (subst float32_loop.simps) simp
    also have "\<dots> = take (i + 1) (out[i := to_int16 (scale_sample (xs ! i))]) @ map (\<lambda>x. to_int16 (scale_sample x)) (drop (i + 1) xs)"
      using True "1.prems" by (intro "1.IH") simp_all
    also have "take (i + 1) (out[i := to_int16 (scale_sample (xs ! i))]) = take i out @ [to_int16 (scale_sample (xs ! i))]"
      using True "1.prems" by (simp add: take_Suc_conv_app_nth)
    finally show ?thesis using True by (simp add: Cons_nth_drop_Suc [symmetric])
  next
    case False
    with "1.prems" show ?thesis by (subst float32_loop.simps) simp
  qed
qed

lemma float32ToInt16_map: "float32ToInt16 xs = map (\<lambda>x. to_int16 (scale_sample x)) xs"
  by (simp add: float32ToInt16_def float32_loop_eq)

lemma clamp_sample_cases:
  "clamp_sample x = NaN \<or> (\<exists>r. clamp_sample x = Fin r \<and> - 1 \<le> r \<and> r \<le> 1)"
  by (cases x) (auto simp: clamp_sample_def)

lemma scale_sample_cases:
  "scale_sample x = NaN \<or> (\<exists>r. scale_sample x = Fin r \<and> - 32768 \<le> r \<and> r \<le> 32767)"
  using clamp_sample_cases [of x] by (auto simp: scale_sample_def Let_def)

lemma trunc_bounds: "- 32768 \<le> r \<Longrightarrow> r \<le> 32767 \<Longrightarrow> - 32768 \<le> trunc r \<and> trunc r \<le> 32767"
  unfolding trunc_def by (auto simp: le_floor_iff ceiling_le_iff floor_le_iff le_ceiling_iff)

lemma sint_to_int16: "- 32768 \<le> r \<Longrightarrow> r \<le> 32767 \<Longrightarrow> sint (to_int16 (Fin r)) = trunc r"
  using trunc_bounds [of r] by (simp add: sint_sbintrunc' signed_take_bit_int_eq_self)

subsection \<open>Bytes and base64\<close>

lemma group_recompose:
  fixes n :: nat
  shows "((n div 262144 * 64 + n div 4096 mod 64) * 64 + n div 64 mod 64) * 64 + n mod 64 = n"
proof -
  have a: "n div 262144 = n div 4096 div 64" by (simp add: div_mult2_eq [symmetric])
  have b: "n div 4096 = n div 64 div 64" by (simp add: div_mult2_eq [symmetric])
  have "n div 262144 * 64 + n div 4096 mod 64 = n div 4096" unfolding a by simp
  moreover have "n div 4096 * 64 + n div 64 mod 64 = n div 64" unfolding b by simp
  ultimately show ?thesis by simp
qed

lemma bytes3:
  fixes x y z :: nat
  assumes "x < 256" "y < 256" "z < 256"
  shows "(x * 65536 + y * 256 + z) div 65536 = x"
    "(x * 65536 + y * 256 + z) div 256 mod 256 = y"
    "(x * 65536 + y * 256 + z) mod 256 = z"
    "x * 65536 + y * 256 + z < 16777216"
proof -
  show "(x * 65536 + y * 256 + z) div 65536 = x" using assms by simp
  have "(x * 65536 + y * 256 + z) div 256 = x * 256 + y" using assms by simp
  then show "(x * 65536 + y * 256 + z) div 256 mod 256 = y" using assms by simp
  have "x * 65536 + y * 256 + z = (x * 256 + y) * 256 + z" by simp
  then show "(x * 65536 + y * 256 + z) mod 256 = z" using assms by (metis mod_mult_self3 mod_less)
  show "x * 65536 + y * 256 + z < 16777216" using assms by simp
qed

lemma int16_cat_bytes: "word_cat (ucast (drop_bit 8 w) :: byte) (ucast w :: byte) = (w :: int16)"
  by (rule bit_word_eqI) (auto simp: bit_simps)

lemma int16_pairs_bytes: "int16_pairs (Buffer_from_int16 xs) = xs"
  by (induction xs) (simp_all add: Buffer_from_int16_def int16_bytes_def int16_cat_bytes)

lemma length_Buffer_from_int16: "length (Buffer_from_int16 xs) = 2 * length xs"
  by (induction xs) (simp_all add: Buffer_from_int16_def int16_bytes_def)


lemma b64_value_char: "i < 64 \<Longrightarrow> b64_value (b64_char i) = Some i"
  by (auto simp: b64_value_def b64_char_def Let_def)

lemma b64_value_pad: "b64_value CHR ''='' = None"
  by (simp add: b64_value_def)

lemma b64_char_not_pad: "i < 64 \<Longrightarrow> b64_char i \<noteq> CHR ''=''"
  using b64_value_char [of i] b64_value_pad by auto

lemma b64_sextets_char:
  "i < 64 \<Longrightarrow> b64_sextets (b64_char i # cs) = i # b64_sextets cs"
  by (simp add: b64_value_char b64_char_not_pad)

lemma b64_sextets_pad: "b64_sextets (CHR ''='' # cs) = []"
  by simp

lemma unat_byte_less: "unat (a :: byte) < 256"
  using unsigned_less [of a, where 'a = nat] by simp

lemma b64_bytes_group4:
  "b64_bytes (n div 262144 # n div 4096 mod 64 # n div 64 mod 64 # n mod 64 # rest) =
     [of_nat (n div 65536), of_nat (n div 256 mod 256), of_nat (n mod 256)] @ b64_bytes rest"
  by (simp only: b64_bytes.simps Let_def group_recompose)

lemma b64_bytes_group3:
  assumes "n mod 64 = 0"
  shows "b64_bytes [n div 262144, n div 4096 mod 64, n div 64 mod 64] =
     [of_nat (n div 65536), of_nat (n div 256 mod 256)]"
proof -
  have "((n div 262144 * 64 + n div 4096 mod 64) * 64 + n div 64 mod 64) * 64 = n"
    using group_recompose [of n] assms by simp
  then show ?thesis by (simp only: b64_bytes.simps Let_def)
qed

lemma b64_bytes_group2:
  assumes "n mod 4096 = 0"
  shows "b64_bytes [n div 262144, n div 4096 mod 64] = [of_nat (n div 65536)]"
proof -
  have "n div 262144 = n div 4096 div 64" by (simp add: div_mult2_eq [symmetric])
  then have "n div 262144 * 64 + n div 4096 mod 64 = n div 4096" by simp
  moreover have "n div 4096 * 4096 = n" using assms by (simp add: mod_eq_0_iff_dvd)
  ultimately have "(n div 262144 * 64 + n div 4096 mod 64) * 4096 = n" by simp
  then show ?thesis by (simp only: b64_bytes.simps Let_def)
qed

lemma group_bounds:
  fixes n :: nat
  assumes "n < 16777216"
  shows "n div 262144 < 64" "n div 4096 mod 64 < 64" "n div 64 mod 64 < 64" "n mod 64 < 64"
  using assms by simp_all

lemma base64_roundtrip: "Buffer_from_base64 (toString_base64 bs) = bs"
proof (induction bs rule: toString_base64.induct)
  case 1
  show ?case by (simp add: Buffer_from_base64_def)
next
  case (2 a)
  define n where "n = unat a * 65536"
  have n: "n < 16777216" "n mod 4096 = 0" "n div 65536 = unat a"
    using unat_byte_less [of a] by (simp_all add: n_def)
  have "b64_sextets (toString_base64 [a]) = [n div 262144, n div 4096 mod 64]"
    using group_bounds [OF n(1)]
    by (simp only: toString_base64.simps Let_def n_def [symmetric] b64_sextets_char b64_sextets_pad)
  then show ?case
    by (simp only: Buffer_from_base64_def b64_bytes_group2 [OF n(2)] n(3)) simp
next
  case (3 a b)
  define n where "n = unat a * 65536 + unat b * 256"
  have n0: "n = unat a * 65536 + unat b * 256 + 0" by (simp add: n_def)
  have z: "(0::nat) < 256" by simp
  have n: "n < 16777216" "n div 65536 = unat a" "n div 256 mod 256 = unat b"
    unfolding n0 using bytes3 [OF unat_byte_less [of a] unat_byte_less [of b] z] by simp_all
  have m: "n mod 64 = 0" by (simp add: n_def)
  have "b64_sextets (toString_base64 [a, b]) = [n div 262144, n div 4096 mod 64, n div 64 mod 64]"
    using group_bounds [OF n(1)]
    by (simp only: toString_base64.simps Let_def n_def [symmetric] b64_sextets_char b64_sextets_pad)
  then show ?case
    by (simp only: Buffer_from_base64_def b64_bytes_group3 [OF m] n) simp
next
  case (4 a b c rest)
  define n where "n = unat a * 65536 + unat b * 256 + unat c"
  have n: "n div 65536 = unat a" "n div 256 mod 256 = unat b" "n mod 256 = unat c" "n < 16777216"
    unfolding n_def using bytes3 [OF unat_byte_less [of a] unat_byte_less [of b] unat_byte_less [of c]]
    by simp_all
  have "b64_sextets (toString_base64 (a # b # c # rest)) =
      n div 262144 # n div 4096 mod 64 # n div 64 mod 64 # n mod 64 # b64_sextets (toString_base64 rest)"
    using group_bounds [OF n(4)]
    by (simp only: toString_base64.simps Let_def n_def [symmetric] append_Cons append_Nil b64_sextets_char)
  then have "Buffer_from_base64 (toString_base64 (a # b # c # rest)) =
      [of_nat (n div 65536), of_nat (n div 256 mod 256), of_nat (n mod 256)] @ Buffer_from_base64 (toString_base64 rest)"
    by (simp only: Buffer_from_base64_def b64_bytes_group4)
  with "4.IH" show ?case by (simp add: n)
qed

lemma frame_roundtrip:
  "decodeFromWire (encodeForWire xs) =
     \<lparr>data = xs, sampleRate = SAMPLE_RATE, numChannels = NUM_CHANNELS, samplesPerChannel = length xs\<rparr>"
  by (simp add: decodeFromWire_def encodeForWire_def base64_roundtrip frame_of_buffer_def
      Int16Array_view_def length_Buffer_from_int16 int16_pairs_bytes)

lemma scale_sample_Fin:
  "scale_sample (Fin v) =
     Fin (if max (- 1) (min 1 v) < 0 then max (- 1) (min 1 v) * 32768 else max (- 1) (min 1 v) * 32767)"
  by (auto simp: scale_sample_def clamp_sample_def Let_def min_def max_def)

subsection \<open>Evaluation on examples\<close>

lemma convertForOpenAI_example:
  "convertForOpenAI \<lparr>data = [1, 2, 3, 4], sampleRate = r, numChannels = c, samplesPerChannel = n\<rparr> =
     ''AQADAA==''"
  by (simp add: convertForOpenAI_def resample48to24_map encodeForWire_def Buffer_from_int16_def
      int16_bytes_def b64_char_def Let_def char_of_eq_iff)

lemma five_bytes: "Buffer_from_base64 ''AQIDBAU='' = [1, 2, 3, 4, 5]"
  by (simp add: Buffer_from_base64_def b64_value_def Let_def)

lemma four_bytes: "Buffer_from_base64 ''AQACAA=='' = [1, 0, 2, 0]"
  by (simp add: Buffer_from_base64_def b64_value_def Let_def)

lemma frame_of_five_bytes:
  "frame_of_buffer [1, 2, 3, 4, 5] =
     \<lparr>data = [513, 1027], sampleRate = 24000, numChannels = 1, samplesPerChannel = 2\<rparr>"
  by (simp add: frame_of_buffer_def Int16Array_view_def word_cat_eq SAMPLE_RATE_def NUM_CHANNELS_def)

lemma frame_of_four_bytes:
  "frame_of_buffer [1, 0, 2, 0] =
     \<lparr>data = [1, 2], sampleRate = 24000, numChannels = 1, samplesPerChannel = 2\<rparr>"
  by (simp add: frame_of_buffer_def Int16Array_view_def word_cat_eq SAMPLE_RATE_def NUM_CHANNELS_def)

lemma length_silence: "length (silence n) = n"
  by (simp add: silence_def)

lemma Buffer_from_base64_encodeForWire:
  "Buffer_from_base64 (encodeForWire xs) = Buffer_from_int16 xs"
  by (simp add: encodeForWire_def base64_roundtrip)

lemma frame_of_buffer_int16:
  "frame_of_buffer (Buffer_from_int16 xs) =
     \<lparr>data = xs, sampleRate = 24000, numChannels = 1, samplesPerChannel = length xs\<rparr>"
  by (simp add: frame_of_buffer_def Int16Array_view_def length_Buffer_from_int16 int16_pairs_bytes
      SAMPLE_RATE_def NUM_CHANNELS_def)

lemmas wire_simps = Buffer_from_base64_encodeForWire frame_of_buffer_int16 length_silence
  frame_duration_ms_def

lemmas session_defs = connect_def on_open_def set_readyState_def initializeSession_def send_def
  sendAudio_def on_close_def on_error_def disconnect_def new_session_def

lemmas agent_defs = run_def new_agent_def forward_frame_def setupAudioPublishing_def
  handleMessage_def playAudioInRoom_def publish_frame_def playout_resolved_def captureFrame_def
  capture_settled_def
  new_AudioSource_def audio_delta_def session_created_def MAX_QUEUE_DURATION_MS_def
  played_def played_out_def


lemma publish_frame_admitted:
  assumes "audioSource b = Some s" "source_rate s = 24000" "source_channels s = 1"
  shows "audioSource (publish_frame x b) =
     Some (s\<lparr>queuedDuration := queuedDuration s + frame_duration_ms (frame_of_buffer x),
              captured := captured s @ [frame_of_buffer x]\<rparr>)"
  using assms
  by (simp add: publish_frame_def captureFrame_def frame_of_buffer_def SAMPLE_RATE_def
      NUM_CHANNELS_def Let_def)

lemma fold_publish_frame_captured:
  "audioSource b = Some s \<Longrightarrow> source_rate s = 24000 \<Longrightarrow> source_channels s = 1 \<Longrightarrow>
   map_option captured (audioSource (fold publish_frame bufs b)) =
     Some (captured s @ map frame_of_buffer bufs)"
proof (induction bufs arbitrary: b s)
  case Nil
  then show ?case by simp
next
  case (Cons x xs)
  let ?s = "s\<lparr>queuedDuration := queuedDuration s + frame_duration_ms (frame_of_buffer x),
              captured := captured s @ [frame_of_buffer x]\<rparr>"
  have "audioSource (publish_frame x b) = Some ?s"
    using Cons.prems by (rule publish_frame_admitted)
  moreover have "source_rate ?s = 24000" "source_channels ?s = 1"
    using Cons.prems by simp_all
  ultimately have "map_option captured (audioSource (fold publish_frame xs (publish_frame x b))) =
      Some (captured ?s @ map frame_of_buffer xs)"
    by (rule Cons.IH)
  then show ?case by simp
qed

lemma three_frames:
  "run [SetupAudioPublishing,
       WsMessage (audio_delta (encodeForWire (silence 12000))),
       WsMessage (audio_delta (encodeForWire (silence 12000))),
       WsMessage (audio_delta (encodeForWire (silence 12000)))] new_agent =
   new_agent\<lparr>openai := new_session\<lparr>audioChunksReceived := 3\<rparr>,
     audioSource := Some \<lparr>source_rate = 24000, source_channels = 1, queuedDuration = 1500,
       captured = [decodeFromWire (encodeForWire (silence 12000)),
           decodeFromWire (encodeForWire (silence 12000)),
           decodeFromWire (encodeForWire (silence 12000))]\<rparr>,
     awaiting_capture := [None, None, None]\<rparr>"
  by (simp add: agent_defs decodeFromWire_def wire_simps new_session_def)

lemma four_frames:
  "run [SetupAudioPublishing,
       WsMessage (audio_delta (encodeForWire (silence 12000))),
       WsMessage (audio_delta (encodeForWire (silence 12000))),
       WsMessage (audio_delta (encodeForWire (silence 12000))),
       WsMessage (audio_delta (encodeForWire (silence 12000)))] new_agent =
   new_agent\<lparr>openai := new_session\<lparr>audioChunksReceived := 4\<rparr>,
     audioSource := Some \<lparr>source_rate = 24000, source_channels = 1, queuedDuration = 1500,
       captured = [decodeFromWire (encodeForWire (silence 12000)),
           decodeFromWire (encodeForWire (silence 12000)),
           decodeFromWire (encodeForWire (silence 12000))]\<rparr>,
     awaiting_playout := [Buffer_from_int16 (silence 12000)],
     awaiting_capture := [None, None, None]\<rparr>"
  by (simp add: agent_defs decodeFromWire_def wire_simps new_session_def)

section \<open>The claims about the converter\<close>

text \<open>
  C5 says that a frame of \<open>n\<close> samples per channel is downsampled to \<open>n div 2\<close> samples.
  \<open>resample48to24\<close> receives the array of samples, in which the channels are interleaved,
  and halves that. A valid stereo frame of two samples per channel has four elements, and
  its output has two, not one: the two samples of the first channel.
\<close>

theorem downsample_stereo_counterexample:
  "valid_frame \<lparr>data = [1, 2, 3, 4], sampleRate = 48000, numChannels = 2, samplesPerChannel = 2\<rparr> \<and>
   resample48to24
     (data \<lparr>data = [1, 2, 3, 4], sampleRate = 48000, numChannels = 2, samplesPerChannel = 2\<rparr>)
     = [1, 3] \<and>
   length (resample48to24
     (data \<lparr>data = [1, 2, 3, 4], sampleRate = 48000, numChannels = 2, samplesPerChannel = 2\<rparr>))
     \<noteq> samplesPerChannel
         \<lparr>data = [1, 2, 3, 4], sampleRate = 48000, numChannels = 2, samplesPerChannel = 2\<rparr> div 2"
  by (simp add: valid_frame_def resample48to24_map)

text \<open>
  C5, as amended. For every frame, the output of \<open>resample48to24\<close> has half as many
  elements as the array of samples of the frame, rounded down, and they are the elements
  of that array at the even indices 0, 2, 4, ... in that order. For a valid frame the
  array has \<open>samplesPerChannel * numChannels\<close> elements, so the output has
  \<open>samplesPerChannel * numChannels div 2\<close>; for a valid mono frame of \<open>n\<close> samples that is
  \<open>n div 2\<close>.
\<close>

theorem resample48to24_even_samples:
  "length (resample48to24 (data f)) = length (data f) div 2 \<and>
   resample48to24 (data f) = map (\<lambda>i. data f ! (2 * i)) [0..<length (data f) div 2] \<and>
   (valid_frame f \<longrightarrow>
      length (resample48to24 (data f)) = samplesPerChannel f * numChannels f div 2) \<and>
   (valid_frame f \<and> numChannels f = 1 \<longrightarrow>
      length (resample48to24 (data f)) = samplesPerChannel f div 2)"
  by (simp add: resample48to24_map mult.commute valid_frame_def)

theorem resample48to24_even_samples_witness:
  "valid_frame \<lparr>data = [1, 2, 3, 4, 5], sampleRate = 48000, numChannels = 1, samplesPerChannel = 5\<rparr> \<and>
   numChannels \<lparr>data = [1, 2, 3, 4, 5], sampleRate = 48000, numChannels = 1, samplesPerChannel = 5\<rparr>
     = 1 \<and>
   length (resample48to24 [1, 2, 3, 4, 5]) = 5 div 2 \<and>
   resample48to24 [1, 2, 3, 4, 5] = [1, 3]"
  using resample48to24_even_samples
    [of "\<lparr>data = [1, 2, 3, 4, 5], sampleRate = 48000, numChannels = 1, samplesPerChannel = 5\<rparr>"]
  by (simp add: valid_frame_def)

text \<open>
  C6 says that downsampling fails with UnsupportedRateRatio unless the rate of the frame is
  twice the target rate. The code has no such check: \<open>resample48to24\<close> receives the samples
  only. A frame at 16 kHz, whose ratio to the 24 kHz of the wire is not 2, is halved and
  sent like any other, and nothing is written to the error console.
\<close>

theorem downsample_rate_counterexample:
  "sampleRate \<lparr>data = [1, 2, 3, 4], sampleRate = 16000, numChannels = 1, samplesPerChannel = 4\<rparr>
     \<noteq> 2 * 24000 \<and>
   resample48to24
     (data \<lparr>data = [1, 2, 3, 4], sampleRate = 16000, numChannels = 1, samplesPerChannel = 4\<rparr>)
     = [1, 3] \<and>
   transmitted (openai (run [Connect, WsOpen,
       TrackFrame \<lparr>data = [1, 2, 3, 4], sampleRate = 16000, numChannels = 1, samplesPerChannel = 4\<rparr>]
       new_agent)) =
     [session_update, input_audio_buffer_append ''AQADAA==''] \<and>
   agent_console (run [Connect, WsOpen,
       TrackFrame \<lparr>data = [1, 2, 3, 4], sampleRate = 16000, numChannels = 1, samplesPerChannel = 4\<rparr>]
       new_agent) = []"
  by (simp add: resample48to24_map session_defs agent_defs convertForOpenAI_example)

text \<open>
  C6, as amended. Downsampling never fails and does not depend on the sample rate of the
  frame: whatever the rate, the result is made of the samples at the even indices, and the
  text sent to the wire is the same.
\<close>

theorem resample_ignores_rate:
  "convertForOpenAI (f\<lparr>sampleRate := r\<rparr>) = convertForOpenAI f \<and>
   resample48to24 (data (f\<lparr>sampleRate := r\<rparr>)) =
     map (\<lambda>i. data f ! (2 * i)) [0..<length (data f) div 2]"
  by (simp add: convertForOpenAI_def resample48to24_map mult.commute)

text \<open>
  C9. Every element of the output of \<open>float32ToInt16\<close> lies in the signed 16-bit range.
  The number assigned to element \<open>i\<close> is \<open>scale_sample (xs ! i)\<close>, the input clamped to
  \<open>[-1, 1]\<close> and multiplied by 32768 when negative, by 32767 otherwise. It is NaN, stored
  as 0, or a finite value between -32768 and 32767, and then the stored sample is that
  value truncated: the store does not wrap around.
\<close>

theorem float32ToInt16_in_range:
  "i < length xs \<Longrightarrow>
   - 32768 \<le> sint (float32ToInt16 xs ! i) \<and> sint (float32ToInt16 xs ! i) \<le> 32767 \<and>
   (case scale_sample (xs ! i) of
      Fin r \<Rightarrow> - 32768 \<le> r \<and> r \<le> 32767 \<and> sint (float32ToInt16 xs ! i) = trunc r
    | NaN \<Rightarrow> float32ToInt16 xs ! i = 0
    | _ \<Rightarrow> False)"
proof -
  assume i: "i < length xs"
  then have out: "float32ToInt16 xs ! i = to_int16 (scale_sample (xs ! i))"
    by (simp add: float32ToInt16_map)
  from scale_sample_cases [of "xs ! i"] show ?thesis
  proof
    assume "scale_sample (xs ! i) = NaN"
    then show ?thesis by (simp add: out)
  next
    assume "\<exists>r. scale_sample (xs ! i) = Fin r \<and> - 32768 \<le> r \<and> r \<le> 32767"
    then obtain r where r: "scale_sample (xs ! i) = Fin r" "- 32768 \<le> r" "r \<le> 32767"
      by blast
    have "sint (to_int16 (Fin r)) = trunc r" using r(2,3) by (rule sint_to_int16)
    with r trunc_bounds [OF r(2,3)] show ?thesis by (simp add: out)
  qed
qed

theorem float32ToInt16_in_range_witness:
  "(1::nat) < length [Fin 2, Fin (- 3 / 2), NaN] \<and>
   - 32768 \<le> sint (float32ToInt16 [Fin 2, Fin (- 3 / 2), NaN] ! 1) \<and>
   sint (float32ToInt16 [Fin 2, Fin (- 3 / 2), NaN] ! 1) \<le> 32767 \<and>
   scale_sample (Fin (- 3 / 2)) = Fin (- 32768) \<and>
   sint (float32ToInt16 [Fin 2, Fin (- 3 / 2), NaN] ! 1) = - 32768"
  using float32ToInt16_in_range [of 1 "[Fin 2, Fin (- 3 / 2), NaN]"]
  by (simp add: scale_sample_Fin trunc_def)

section \<open>The claims about the wire encoding\<close>

text \<open>
  C3 says that decoding the encoding of a valid frame with an even sample count gives the
  frame back, at the frame's own rate and channel count. The decoder of the code takes
  neither: every frame it builds is labelled 24000 Hz, one channel, with as many samples
  per channel as there are samples. A valid stereo frame at 48 kHz with two samples per
  channel comes back with its samples intact and another header.
\<close>

theorem decode_encode_counterexample:
  "valid_frame \<lparr>data = [1, 2, 3, 4], sampleRate = 48000, numChannels = 2, samplesPerChannel = 2\<rparr> \<and>
   even (samplesPerChannel
     \<lparr>data = [1, 2, 3, 4], sampleRate = 48000, numChannels = 2, samplesPerChannel = 2\<rparr>) \<and>
   decodeFromWire (encodeForWire
     (data \<lparr>data = [1, 2, 3, 4], sampleRate = 48000, numChannels = 2, samplesPerChannel = 2\<rparr>)) =
     \<lparr>data = [1, 2, 3, 4], sampleRate = 24000, numChannels = 1, samplesPerChannel = 4\<rparr> \<and>
   decodeFromWire (encodeForWire
     (data \<lparr>data = [1, 2, 3, 4], sampleRate = 48000, numChannels = 2, samplesPerChannel = 2\<rparr>)) \<noteq>
     \<lparr>data = [1, 2, 3, 4], sampleRate = 48000, numChannels = 2, samplesPerChannel = 2\<rparr>"
  by (simp add: valid_frame_def frame_roundtrip SAMPLE_RATE_def NUM_CHANNELS_def)

text \<open>
  C3, as amended. The samples of every frame survive the round trip through base64 and the
  16-bit view, whatever their number. Whatever the payload, the decoded frame has the
  sample rate 24000, one channel, and as many samples per channel as it has samples. So
  the decoded frame equals the original one if and only if that is a valid mono frame at
  24000 Hz.
\<close>

theorem decode_encode_mono_24k:
  "data (decodeFromWire (encodeForWire (data f))) = data f \<and>
   sampleRate (decodeFromWire p) = 24000 \<and>
   numChannels (decodeFromWire p) = 1 \<and>
   samplesPerChannel (decodeFromWire p) = length (data (decodeFromWire p)) \<and>
   (decodeFromWire (encodeForWire (data f)) = f \<longleftrightarrow>
      valid_frame f \<and> sampleRate f = 24000 \<and> numChannels f = 1)"
proof -
  have header: "sampleRate (decodeFromWire p) = 24000 \<and> numChannels (decodeFromWire p) = 1 \<and>
      samplesPerChannel (decodeFromWire p) = length (data (decodeFromWire p))"
    by (simp add: decodeFromWire_def frame_of_buffer_def SAMPLE_RATE_def NUM_CHANNELS_def Let_def)
  have trip: "decodeFromWire (encodeForWire (data f)) =
      \<lparr>data = data f, sampleRate = 24000, numChannels = 1, samplesPerChannel = length (data f)\<rparr>"
    by (simp add: frame_roundtrip SAMPLE_RATE_def NUM_CHANNELS_def)
  have "(\<lparr>data = data f, sampleRate = 24000, numChannels = 1,
          samplesPerChannel = length (data f)\<rparr> = f) \<longleftrightarrow>
      valid_frame f \<and> sampleRate f = 24000 \<and> numChannels f = 1"
    by (cases f) (auto simp: valid_frame_def)
  with header trip show ?thesis by simp
qed

theorem decode_encode_mono_24k_witness:
  "valid_frame \<lparr>data = [1, 2, 3], sampleRate = 24000, numChannels = 1, samplesPerChannel = 3\<rparr> \<and>
   decodeFromWire (encodeForWire [1, 2, 3]) =
     \<lparr>data = [1, 2, 3], sampleRate = 24000, numChannels = 1, samplesPerChannel = 3\<rparr> \<and>
   \<not> valid_frame \<lparr>data = [1, 2, 3], sampleRate = 24000, numChannels = 1, samplesPerChannel = 4\<rparr> \<and>
   decodeFromWire (encodeForWire [1, 2, 3]) \<noteq>
     \<lparr>data = [1, 2, 3], sampleRate = 24000, numChannels = 1, samplesPerChannel = 4\<rparr>"
  using decode_encode_mono_24k
    [of "\<lparr>data = [1, 2, 3], sampleRate = 24000, numChannels = 1, samplesPerChannel = 3\<rparr>"]
    decode_encode_mono_24k
    [of "\<lparr>data = [1, 2, 3], sampleRate = 24000, numChannels = 1, samplesPerChannel = 4\<rparr>"]
  by (simp add: valid_frame_def)




section \<open>The claims about the session\<close>

text \<open>
  C1 says that \<open>sendAudio\<close> transmits nothing unless the session is Configured or Active.
  The code tests the flag \<^verbatim>\<open>connected\<close>, which the \<^verbatim>\<open>open\<close> handler of the socket sets.
  After \<^verbatim>\<open>connect()\<close>, the opening of the socket and the \<^verbatim>\<open>session.created\<close> event, the
  specification has the session in AwaitingConfig, and a call of \<open>sendAudio\<close> transmits
  an audio event.
\<close>

theorem sendAudio_state_counterexample:
  "protocol_state [Connect, WsOpen, WsMessage (session_created ''s1'')] = AwaitingConfig \<and>
   transmitted (sendAudio ''AQADAA==''
      (openai (run [Connect, WsOpen, WsMessage (session_created ''s1'')] new_agent))) =
   transmitted (openai (run [Connect, WsOpen, WsMessage (session_created ''s1'')] new_agent)) @
     [input_audio_buffer_append ''AQADAA=='']"
  by (simp add: protocol_state_def session_defs agent_defs)

text \<open>
  C1, as amended. While \<^verbatim>\<open>connected\<close> is false, \<open>sendAudio\<close> changes nothing but the
  console, to which it adds a warning: it transmits no event and counts none. While
  \<^verbatim>\<open>connected\<close> is true and the socket is open, each call transmits exactly one event,
  \<^verbatim>\<open>input_audio_buffer.append\<close> with the audio given.
\<close>

theorem sendAudio_connected_gate:
  "(\<not> connected s \<longrightarrow>
      sendAudio b s =
        s\<lparr>session_console := session_console s @ [''[OPENAI] Cannot send audio: not connected'']\<rparr>) \<and>
   (connected s \<and> ws s = Some OPEN \<longrightarrow>
      transmitted (sendAudio b s) = transmitted s @ [input_audio_buffer_append b])"
  by (simp add: sendAudio_def send_def Let_def)

theorem sendAudio_connected_gate_witness:
  "\<not> connected (openai (run [Connect] new_agent)) \<and>
   protocol_state [Connect] = Connecting \<and>
   transmitted (sendAudio ''AQADAA=='' (openai (run [Connect] new_agent))) = [] \<and>
   connected (openai (run [Connect, WsOpen] new_agent)) \<and>
   ws (openai (run [Connect, WsOpen] new_agent)) = Some OPEN \<and>
   transmitted (sendAudio ''AQADAA=='' (openai (run [Connect, WsOpen] new_agent))) =
     [session_update, input_audio_buffer_append ''AQADAA=='']"
  using sendAudio_connected_gate [of "openai (run [Connect] new_agent)" "''AQADAA==''"]
    sendAudio_connected_gate [of "openai (run [Connect, WsOpen] new_agent)" "''AQADAA==''"]
  by (simp add: protocol_state_def session_defs agent_defs)

text \<open>
  C10. While \<^verbatim>\<open>connected\<close> is true, every call of \<open>sendAudio\<close> adds one to
  \<^verbatim>\<open>audioChunksSent\<close>, also when the socket is not open and the call transmits nothing. So
  the counter can exceed the number of audio events transmitted: it does after a frame
  arrives while the socket is closing.
\<close>

theorem sendAudio_counts_unsent:
  "(connected s \<longrightarrow> audioChunksSent (sendAudio b s) = audioChunksSent s + 1) \<and>
   (connected s \<and> ws s \<noteq> Some OPEN \<longrightarrow> transmitted (sendAudio b s) = transmitted s) \<and>
   (\<exists>events. length (filter is_append (transmitted (openai (run events new_agent)))) <
       audioChunksSent (openai (run events new_agent)))"
proof -
  have "length (filter is_append (transmitted (openai (run [Connect, WsOpen, WsClosing,
          TrackFrame \<lparr>data = [1, 2, 3, 4], sampleRate = 48000, numChannels = 1, samplesPerChannel = 4\<rparr>]
          new_agent)))) <
       audioChunksSent (openai (run [Connect, WsOpen, WsClosing,
          TrackFrame \<lparr>data = [1, 2, 3, 4], sampleRate = 48000, numChannels = 1, samplesPerChannel = 4\<rparr>]
          new_agent))"
    by (simp add: session_defs agent_defs)
  then have "\<exists>events. length (filter is_append (transmitted (openai (run events new_agent)))) <
       audioChunksSent (openai (run events new_agent))" ..
  then show ?thesis by (simp add: sendAudio_def send_def Let_def)
qed

theorem sendAudio_counts_unsent_witness:
  "connected (openai (run [Connect, WsOpen, WsClosing] new_agent)) \<and>
   ws (openai (run [Connect, WsOpen, WsClosing] new_agent)) \<noteq> Some OPEN \<and>
   audioChunksSent (sendAudio ''AQADAA=='' (openai (run [Connect, WsOpen, WsClosing] new_agent))) = 1 \<and>
   transmitted (sendAudio ''AQADAA=='' (openai (run [Connect, WsOpen, WsClosing] new_agent))) =
     [session_update]"
  using sendAudio_counts_unsent [of "openai (run [Connect, WsOpen, WsClosing] new_agent)" "''AQADAA==''"]
  by (simp add: session_defs agent_defs)

section \<open>The claims about playback\<close>

text \<open>
  C2 says that, with a watermark of 1000 ms and nothing played, the third of three frames
  of 500 ms waits for the playout. The code waits when the queued duration is greater than
  1000 ms. After two frames of 12000 samples the queue holds 1000 ms exactly, so the third
  call does not suspend and its frame reaches the transport at once.
\<close>

theorem backpressure_third_counterexample:
  "frame_duration_ms (decodeFromWire (encodeForWire (silence 12000))) = 500 \<and>
   map_option queuedDuration (audioSource (run [SetupAudioPublishing,
       WsMessage (audio_delta (encodeForWire (silence 12000))),
       WsMessage (audio_delta (encodeForWire (silence 12000)))] new_agent)) = Some 1000 \<and>
   awaiting_playout (run [SetupAudioPublishing,
       WsMessage (audio_delta (encodeForWire (silence 12000))),
       WsMessage (audio_delta (encodeForWire (silence 12000))),
       WsMessage (audio_delta (encodeForWire (silence 12000)))] new_agent) = [] \<and>
   map_option captured (audioSource (run [SetupAudioPublishing,
       WsMessage (audio_delta (encodeForWire (silence 12000))),
       WsMessage (audio_delta (encodeForWire (silence 12000))),
       WsMessage (audio_delta (encodeForWire (silence 12000)))] new_agent)) =
     Some [decodeFromWire (encodeForWire (silence 12000)),
           decodeFromWire (encodeForWire (silence 12000)),
           decodeFromWire (encodeForWire (silence 12000))]"
  by (simp add: agent_defs decodeFromWire_def wire_simps)

text \<open>
  C2, as amended. When the sink exists, \<open>playAudioInRoom\<close> suspends at the playout exactly
  when the queued duration is greater than 1000 ms, and the transport has not received
  the frame then; at 1000 ms or less the call goes on to publish the frame at once. When
  the playout resolves, the frames of the suspended calls reach a sink for mono frames at
  24000 Hz after the frames already there, in the order in which the calls suspended,
  this one last. With frames of 500 ms and nothing played, the third call does not
  suspend and the fourth call is the first to do so.
\<close>

theorem playAudioInRoom_admission:
  "(audioSource a = Some src \<longrightarrow>
     (queuedDuration src > 1000 \<longrightarrow>
        playAudioInRoom buf a = a\<lparr>awaiting_playout := awaiting_playout a @ [buf]\<rparr>) \<and>
     (queuedDuration src \<le> 1000 \<longrightarrow> playAudioInRoom buf a = publish_frame buf a) \<and>
     (queuedDuration src > 1000 \<and> source_rate src = 24000 \<and> source_channels src = 1 \<longrightarrow>
        map_option captured (audioSource (playout_resolved (playAudioInRoom buf a))) =
          Some (captured src @ map frame_of_buffer (awaiting_playout a @ [buf])))) \<and>
   awaiting_playout (run [SetupAudioPublishing,
       WsMessage (audio_delta (encodeForWire (silence 12000))),
       WsMessage (audio_delta (encodeForWire (silence 12000))),
       WsMessage (audio_delta (encodeForWire (silence 12000)))] new_agent) = [] \<and>
   awaiting_playout (run [SetupAudioPublishing,
       WsMessage (audio_delta (encodeForWire (silence 12000))),
       WsMessage (audio_delta (encodeForWire (silence 12000))),
       WsMessage (audio_delta (encodeForWire (silence 12000))),
       WsMessage (audio_delta (encodeForWire (silence 12000)))] new_agent) =
     [Buffer_from_int16 (silence 12000)]"
proof -
  have resolved: "map_option captured (audioSource (playout_resolved (playAudioInRoom buf a))) =
      Some (captured src @ map frame_of_buffer (awaiting_playout a @ [buf]))"
    if src: "audioSource a = Some src" "queuedDuration src > 1000"
      "source_rate src = 24000" "source_channels src = 1"
  proof -
    let ?b = "a\<lparr>awaiting_playout := [], audioSource := Some (played_out src)\<rparr>"
    have "playout_resolved (playAudioInRoom buf a) =
        fold publish_frame (awaiting_playout a @ [buf]) ?b"
      using src(1,2)
      by (simp add: playAudioInRoom_def playout_resolved_def MAX_QUEUE_DURATION_MS_def)
    moreover have "map_option captured (audioSource (fold publish_frame (awaiting_playout a @ [buf]) ?b)) =
        Some (captured (played_out src) @ map frame_of_buffer (awaiting_playout a @ [buf]))"
      using src(3,4) by (intro fold_publish_frame_captured) (simp_all add: played_out_def)
    ultimately show ?thesis by (simp add: played_out_def)
  qed
  have gate: "audioSource a = Some src \<longrightarrow>
     (queuedDuration src > 1000 \<longrightarrow>
        playAudioInRoom buf a = a\<lparr>awaiting_playout := awaiting_playout a @ [buf]\<rparr>) \<and>
     (queuedDuration src \<le> 1000 \<longrightarrow> playAudioInRoom buf a = publish_frame buf a)"
    by (simp add: playAudioInRoom_def MAX_QUEUE_DURATION_MS_def)
  have third: "awaiting_playout (run [SetupAudioPublishing,
       WsMessage (audio_delta (encodeForWire (silence 12000))),
       WsMessage (audio_delta (encodeForWire (silence 12000))),
       WsMessage (audio_delta (encodeForWire (silence 12000)))] new_agent) = []"
    unfolding three_frames by (simp add: new_agent_def)
  have fourth: "awaiting_playout (run [SetupAudioPublishing,
       WsMessage (audio_delta (encodeForWire (silence 12000))),
       WsMessage (audio_delta (encodeForWire (silence 12000))),
       WsMessage (audio_delta (encodeForWire (silence 12000))),
       WsMessage (audio_delta (encodeForWire (silence 12000)))] new_agent) =
     [Buffer_from_int16 (silence 12000)]"
    unfolding four_frames by (simp add: new_agent_def)
  from gate resolved have "audioSource a = Some src \<longrightarrow>
     (queuedDuration src > 1000 \<longrightarrow>
        playAudioInRoom buf a = a\<lparr>awaiting_playout := awaiting_playout a @ [buf]\<rparr>) \<and>
     (queuedDuration src \<le> 1000 \<longrightarrow> playAudioInRoom buf a = publish_frame buf a) \<and>
     (queuedDuration src > 1000 \<and> source_rate src = 24000 \<and> source_channels src = 1 \<longrightarrow>
        map_option captured (audioSource (playout_resolved (playAudioInRoom buf a))) =
          Some (captured src @ map frame_of_buffer (awaiting_playout a @ [buf])))"
    by blast
  with third fourth show ?thesis by blast
qed

theorem playAudioInRoom_admission_witness:
  "audioSource (run [SetupAudioPublishing,
       WsMessage (audio_delta (encodeForWire (silence 12000))),
       WsMessage (audio_delta (encodeForWire (silence 12000))),
       WsMessage (audio_delta (encodeForWire (silence 12000)))] new_agent) =
     Some \<lparr>source_rate = 24000, source_channels = 1, queuedDuration = 1500,
       captured = [decodeFromWire (encodeForWire (silence 12000)),
           decodeFromWire (encodeForWire (silence 12000)),
           decodeFromWire (encodeForWire (silence 12000))]\<rparr> \<and>
   awaiting_playout (playAudioInRoom (Buffer_from_int16 (silence 12000))
     (run [SetupAudioPublishing,
       WsMessage (audio_delta (encodeForWire (silence 12000))),
       WsMessage (audio_delta (encodeForWire (silence 12000))),
       WsMessage (audio_delta (encodeForWire (silence 12000)))] new_agent)) =
     [Buffer_from_int16 (silence 12000)] \<and>
   map_option captured (audioSource (playout_resolved
     (playAudioInRoom (Buffer_from_int16 (silence 12000))
     (run [SetupAudioPublishing,
       WsMessage (audio_delta (encodeForWire (silence 12000))),
       WsMessage (audio_delta (encodeForWire (silence 12000))),
       WsMessage (audio_delta (encodeForWire (silence 12000)))] new_agent)))) =
     Some [decodeFromWire (encodeForWire (silence 12000)),
           decodeFromWire (encodeForWire (silence 12000)),
           decodeFromWire (encodeForWire (silence 12000)),
           decodeFromWire (encodeForWire (silence 12000))]"
  using playAudioInRoom_admission [of "run [SetupAudioPublishing,
       WsMessage (audio_delta (encodeForWire (silence 12000))),
       WsMessage (audio_delta (encodeForWire (silence 12000))),
       WsMessage (audio_delta (encodeForWire (silence 12000)))] new_agent"
     "\<lparr>source_rate = 24000, source_channels = 1, queuedDuration = 1500,
       captured = [decodeFromWire (encodeForWire (silence 12000)),
           decodeFromWire (encodeForWire (silence 12000)),
           decodeFromWire (encodeForWire (silence 12000))]\<rparr>"
     "Buffer_from_int16 (silence 12000)"]
  unfolding three_frames four_frames
  by (simp add: agent_defs decodeFromWire_def wire_simps)

text \<open>
  C4 says that frames reach the transport in the order of their audio events, whatever the
  admission waits. \<^verbatim>\<open>handleMessage\<close> does not await \<^verbatim>\<open>playAudioInRoom\<close>, so a call that is
  suspended at the playout does not hold back the calls that come after it. Here the
  queue holds 1500 ms when the frame \<open>[1, 1]\<close> arrives, and its call suspends; 600 ms are
  played; the frame \<open>[2, 2]\<close> arrives, finds 900 ms queued and is handed to the transport
  at once; the playout resolves and \<open>[1, 1]\<close> follows. The transport receives \<open>[2, 2]\<close>
  before \<open>[1, 1]\<close>.
\<close>

theorem playback_overtaking:
  "map_option captured (audioSource (run [SetupAudioPublishing,
       WsMessage (audio_delta (encodeForWire (silence 36000))),
       WsMessage (audio_delta (encodeForWire [1, 1])),
       Played 600,
       WsMessage (audio_delta (encodeForWire [2, 2])),
       PlayoutResolved] new_agent)) =
     Some [\<lparr>data = silence 36000, sampleRate = 24000, numChannels = 1, samplesPerChannel = 36000\<rparr>,
           \<lparr>data = [2, 2], sampleRate = 24000, numChannels = 1, samplesPerChannel = 2\<rparr>,
           \<lparr>data = [1, 1], sampleRate = 24000, numChannels = 1, samplesPerChannel = 2\<rparr>] \<and>
   awaiting_playout (run [SetupAudioPublishing,
       WsMessage (audio_delta (encodeForWire (silence 36000))),
       WsMessage (audio_delta (encodeForWire [1, 1]))] new_agent) = [Buffer_from_int16 [1, 1]] \<and>
   map_option queuedDuration (audioSource (run [SetupAudioPublishing,
       WsMessage (audio_delta (encodeForWire (silence 36000))),
       WsMessage (audio_delta (encodeForWire [1, 1])),
       Played 600] new_agent)) = Some 900"
  by (simp add: agent_defs wire_simps)

text \<open>
  C8 says that audio which arrives before the sink exists is buffered. The code drops it:
  \<^verbatim>\<open>handleMessage\<close> calls \<^verbatim>\<open>playAudioInRoom\<close> only when the sink exists, and nothing keeps
  the payload. A frame that arrives before \<^verbatim>\<open>setupAudioPublishing\<close> is in no queue
  afterwards and never reaches the transport; the frame that arrives after it is the only
  one published.
\<close>

theorem early_audio_counterexample:
  "awaiting_playout (run [WsMessage (audio_delta ''AQIDBAU='')] new_agent) = [] \<and>
   audioSource (run [WsMessage (audio_delta ''AQIDBAU='')] new_agent) = None \<and>
   map_option captured (audioSource (run [WsMessage (audio_delta ''AQIDBAU=''), SetupAudioPublishing,
       WsMessage (audio_delta ''AQACAA==''), PlayoutResolved] new_agent)) =
     Some [\<lparr>data = [1, 2], sampleRate = 24000, numChannels = 1, samplesPerChannel = 2\<rparr>]"
  by (simp add: agent_defs five_bytes four_bytes frame_of_five_bytes frame_of_four_bytes
      frame_duration_ms_def)

text \<open>
  C8, as amended. An audio event that arrives while the sink does not exist is counted in
  \<^verbatim>\<open>audioChunksReceived\<close> and its payload is discarded: nothing else in the agent
  changes. \<open>playAudioInRoom\<close> itself, called without a sink, only writes the warning that
  it skips the frame.
\<close>

theorem early_audio_discarded:
  "audioSource a = None \<Longrightarrow>
   step (WsMessage (audio_delta p)) a =
     a\<lparr>openai := (openai a)\<lparr>audioChunksReceived := audioChunksReceived (openai a) + 1\<rparr>\<rparr> \<and>
   playAudioInRoom buf a =
     a\<lparr>agent_console := agent_console a @
         [''[AI-AGENT] AudioSource not ready, skipping audio frame'']\<rparr>"
  by (simp add: agent_defs Let_def)

theorem early_audio_discarded_witness:
  "audioSource new_agent = None \<and>
   step (WsMessage (audio_delta ''AQIDBAU='')) new_agent =
     new_agent\<lparr>openai := new_session\<lparr>audioChunksReceived := 1\<rparr>\<rparr> \<and>
   playAudioInRoom [1, 2, 3, 4, 5] new_agent =
     new_agent\<lparr>agent_console := [''[AI-AGENT] AudioSource not ready, skipping audio frame'']\<rparr>"
  using early_audio_discarded [of new_agent "''AQIDBAU=''" "[1, 2, 3, 4, 5]"]
  by (simp add: new_agent_def new_session_def)

end
